theory Spec2Isabelle
  imports Main "HOL-Library.Word"
begin

section \<open>The resolver adapter of cbits/hs\_uv\_dns.c\<close>

text \<open>
  The file holds two C functions, \<open>hs_getaddrinfo\<close> and \<open>hs_getnameinfo\<close>. Each one
  calls an operating-system resolver routine once, hands the returned \<open>int\<close> to
  \<open>uv__getaddrinfo_translate_error\<close> and returns the translated value converted to
  \<open>HsInt\<close>. The three routines they call come from \<open>hs_uv.h\<close> and are not part of
  the file; the embedding takes them as parameters.
\<close>

subsection \<open>C types\<close>

text \<open>
  \<open>int\<close> and \<open>socklen_t\<close> are 32-bit words, \<open>HsInt\<close> is the 64-bit Haskell
  \<open>Int\<close> of a 64-bit target (on a 32-bit target the conversion below is the
  identity). A pointer is an address; \<open>NULL\<close> is address 0. Addresses are natural
  numbers: no claim depends on pointer arithmetic wrapping around.
\<close>

type_synonym c_int = "32 word"
type_synonym socklen_t = "32 word"
type_synonym HsInt = "64 word"
type_synonym ptr = nat
type_synonym byte = "8 word"

definition NULL :: ptr where
  "NULL = 0"

text \<open>One node of a result chain, with the fields of \<open>struct addrinfo\<close> a caller reads.\<close>

record addrinfo =
  ai_flags :: c_int
  ai_family :: c_int
  ai_socktype :: c_int
  ai_protocol :: c_int
  ai_addr :: "byte list"

subsection \<open>The world the calls run in\<close>

text \<open>
  An invocation of an operating-system resolver routine, with the arguments it was
  given, in the order of the C prototypes.
\<close>

datatype os_call =
    Getaddrinfo ptr ptr ptr ptr
  | Getnameinfo ptr socklen_t ptr socklen_t ptr socklen_t c_int

text \<open>
  The memory the two functions and the resolver share:
  \<^item> \<open>bytes\<close>: character memory (host and service strings, socket addresses, the
    output buffers of reverse resolution);
  \<^item> \<open>slots\<close>: pointer-typed cells, among them the cell \<open>res\<close> points at;
  \<^item> \<open>chains\<close>: the result chains that the resolver has allocated and that nobody has
    released, keyed by the address of their first node;
  \<^item> \<open>calls\<close>: the resolver invocations made so far, oldest first.
\<close>

record world =
  bytes :: "ptr \<Rightarrow> byte"
  slots :: "ptr \<Rightarrow> ptr"
  chains :: "ptr \<rightharpoonup> addrinfo list"
  calls :: "os_call list"

subsection \<open>The routines declared by hs\_uv.h\<close>

text \<open>
  \<open>getaddrinfo\<close> and \<open>getnameinfo\<close> are the resolver routines of the C library: given
  their arguments and the world, they return an \<open>int\<close> and the world they leave.
  \<open>uv__getaddrinfo_translate_error\<close> takes the \<open>int\<close> and returns an \<open>int\<close>.
\<close>

record externals =
  getaddrinfo :: "ptr \<Rightarrow> ptr \<Rightarrow> ptr \<Rightarrow> ptr \<Rightarrow> world \<Rightarrow> c_int \<times> world"
  getnameinfo ::
    "ptr \<Rightarrow> socklen_t \<Rightarrow> ptr \<Rightarrow> socklen_t \<Rightarrow> ptr \<Rightarrow> socklen_t \<Rightarrow> c_int \<Rightarrow> world \<Rightarrow> c_int \<times> world"
  uv__getaddrinfo_translate_error :: "c_int \<Rightarrow> c_int"

text \<open>
  Calling a resolver routine runs it and appends the invocation to \<open>calls\<close>, so that the
  number of invocations a function makes, and their arguments, can be read off the world
  it returns.
\<close>

definition call_getaddrinfo ::
  "externals \<Rightarrow> ptr \<Rightarrow> ptr \<Rightarrow> ptr \<Rightarrow> ptr \<Rightarrow> world \<Rightarrow> c_int \<times> world" where
  "call_getaddrinfo ext node service hints res w =
     (let (err, w') = getaddrinfo ext node service hints res w
      in (err, w'\<lparr>calls := calls w @ [Getaddrinfo node service hints res]\<rparr>))"

definition call_getnameinfo ::
  "externals \<Rightarrow> ptr \<Rightarrow> socklen_t \<Rightarrow> ptr \<Rightarrow> socklen_t \<Rightarrow> ptr \<Rightarrow> socklen_t \<Rightarrow> c_int \<Rightarrow> world
     \<Rightarrow> c_int \<times> world" where
  "call_getnameinfo ext addr addrlen host hostlen serv servlen flags w =
     (let (err, w') = getnameinfo ext addr addrlen host hostlen serv servlen flags w
      in (err, w'\<lparr>calls :=
            calls w @ [Getnameinfo addr addrlen host hostlen serv servlen flags]\<rparr>))"

subsection \<open>The two functions\<close>

text \<open>
  \<^verbatim>\<open>
  HsInt hs_getaddrinfo(const char *node, const char *service,
                       const struct addrinfo *hints, struct addrinfo **res){
      int err;
      err = getaddrinfo(node, service, hints, res);
      return (HsInt)uv__getaddrinfo_translate_error(err);
  }
  \<close>
  The conversion \<open>(HsInt)\<close> of an \<open>int\<close> extends the sign: \<open>scast\<close>.
\<close>

definition hs_getaddrinfo ::
  "externals \<Rightarrow> ptr \<Rightarrow> ptr \<Rightarrow> ptr \<Rightarrow> ptr \<Rightarrow> world \<Rightarrow> HsInt \<times> world" where
  "hs_getaddrinfo ext node service hints res w =
     (let (err, w') = call_getaddrinfo ext node service hints res w
      in (scast (uv__getaddrinfo_translate_error ext err), w'))"

text \<open>
  \<^verbatim>\<open>
  HsInt hs_getnameinfo(const struct sockaddr *addr, socklen_t addrlen,
                       char *host, socklen_t hostlen,
                       char *serv, socklen_t servlen, int flags){
      int err;
      err = getnameinfo(addr, addrlen, host, hostlen, serv, servlen, flags);
      return (HsInt)uv__getaddrinfo_translate_error(err);
  }
  \<close>
\<close>

definition hs_getnameinfo ::
  "externals \<Rightarrow> ptr \<Rightarrow> socklen_t \<Rightarrow> ptr \<Rightarrow> socklen_t \<Rightarrow> ptr \<Rightarrow> socklen_t \<Rightarrow> c_int \<Rightarrow> world
     \<Rightarrow> HsInt \<times> world" where
  "hs_getnameinfo ext addr addrlen host hostlen serv servlen flags w =
     (let (err, w') = call_getnameinfo ext addr addrlen host hostlen serv servlen flags w
      in (scast (uv__getaddrinfo_translate_error ext err), w'))"

section \<open>The translation of resolver codes\<close>

text \<open>
  Modelled from the spec: \<open>uv__getaddrinfo_translate_error\<close> is called by both functions
  and declared by \<open>hs_uv.h\<close>; its body is not in \<open>cbits/hs_uv_dns.c\<close>. The spec
  describes it as "a total function over a closed enumeration (a lookup table or
  exhaustive match), with a single documented fallback arm", where "unmapped codes fall
  back to a generic system-failure code". \<open>table\<close> pairs each mapped OS-native code with
  its normalized code, \<open>fallback\<close> is the generic system-failure code.
\<close>

definition translate_error :: "(c_int \<times> c_int) list \<Rightarrow> c_int \<Rightarrow> c_int \<Rightarrow> c_int" where
  "translate_error table fallback e =
     (case map_of table e of Some s \<Rightarrow> s | None \<Rightarrow> fallback)"

section \<open>What the resolver routines are expected to do\<close>

text \<open>An address lies within a buffer when it is one of its first \<open>cap\<close> bytes.\<close>

definition within :: "ptr \<Rightarrow> socklen_t \<Rightarrow> ptr \<Rightarrow> bool" where
  "within buf cap a \<longleftrightarrow> buf \<le> a \<and> a < buf + unat cap"

text \<open>
  From \<open>w\<close> to \<open>w'\<close>, character memory changed only within the two buffers, each up
  to its stated capacity.
\<close>

definition confined :: "ptr \<Rightarrow> socklen_t \<Rightarrow> ptr \<Rightarrow> socklen_t \<Rightarrow> world \<Rightarrow> world \<Rightarrow> bool" where
  "confined host hostlen serv servlen w w' \<longleftrightarrow>
     (\<forall>a. \<not> within host hostlen a \<and> \<not> within serv servlen a \<longrightarrow> bytes w' a = bytes w a)"

text \<open>A buffer holds terminated text when one of its first \<open>cap\<close> bytes is the terminator 0.\<close>

definition terminated :: "(ptr \<Rightarrow> byte) \<Rightarrow> ptr \<Rightarrow> socklen_t \<Rightarrow> bool" where
  "terminated m buf cap \<longleftrightarrow> (\<exists>i<unat cap. m (buf + i) = 0)"

text \<open>
  Modelled from the spec: \<open>getnameinfo\<close> is the reverse resolver of the C library and is
  not in \<open>cbits/hs_uv_dns.c\<close>. The spec gives what it does with a buffer that is too
  small: "given an output buffer smaller than the resolved name's length returns
  buffer-too-small and does not write beyond the buffer's capacity". \<open>resolved\<close> gives
  the host name and the service name the resolver holds for a socket address, \<open>ovf\<close> is
  the OS-native code for a buffer that is too small.
\<close>

definition overflow_contract ::
  "externals \<Rightarrow> (ptr \<Rightarrow> socklen_t \<Rightarrow> c_int \<Rightarrow> world \<Rightarrow> string \<times> string) \<Rightarrow> c_int \<Rightarrow> bool" where
  "overflow_contract ext resolved ovf \<longleftrightarrow>
     (\<forall>addr addrlen host hostlen serv servlen flags w.
        unat hostlen < length (fst (resolved addr addrlen flags w)) \<or>
        unat servlen < length (snd (resolved addr addrlen flags w)) \<longrightarrow>
          fst (getnameinfo ext addr addrlen host hostlen serv servlen flags w) = ovf \<and>
          confined host hostlen serv servlen w
            (snd (getnameinfo ext addr addrlen host hostlen serv servlen flags w)))"

text \<open>
  Modelled from the spec: what one \<open>getnameinfo\<close> call (not in \<open>cbits/hs_uv_dns.c\<close>), with
  outcome \<open>r\<close> from world \<open>w\<close>, does to memory. The spec: "on success, the two output
  buffers are filled in place (null/sentinel-terminated text within the given capacity)",
  "no dynamic allocation is performed by this call", it "touches only caller-supplied
  memory". Code 0 is success.
\<close>

definition fills_in_place ::
  "ptr \<Rightarrow> socklen_t \<Rightarrow> ptr \<Rightarrow> socklen_t \<Rightarrow> world \<Rightarrow> c_int \<times> world \<Rightarrow> bool" where
  "fills_in_place host hostlen serv servlen w r \<longleftrightarrow>
     confined host hostlen serv servlen w (snd r) \<and>
     slots (snd r) = slots w \<and>
     chains (snd r) = chains w \<and>
     (fst r = 0 \<longrightarrow>
        terminated (bytes (snd r)) host hostlen \<and> terminated (bytes (snd r)) serv servlen)"

section \<open>A platform to run the functions on\<close>

text \<open>
  Concrete resolver routines and a concrete translation table, for running the two
  functions on explicit inputs. The codes are those of one C library and one libuv
  release; the theorems about the two functions hold for any routines and any table.
\<close>

definition EAI_NONAME :: c_int where "EAI_NONAME = - 2"
definition EAI_AGAIN :: c_int where "EAI_AGAIN = - 3"
definition EAI_MEMORY :: c_int where "EAI_MEMORY = - 10"
definition EAI_OVERFLOW :: c_int where "EAI_OVERFLOW = - 12"

definition UV_EAI_NONAME :: c_int where "UV_EAI_NONAME = - 3008"
definition UV_EAI_AGAIN :: c_int where "UV_EAI_AGAIN = - 3001"
definition UV_EAI_MEMORY :: c_int where "UV_EAI_MEMORY = - 3006"
definition UV_EAI_OVERFLOW :: c_int where "UV_EAI_OVERFLOW = - 3009"
definition UV_EAI_FAIL :: c_int where "UV_EAI_FAIL = - 3004"

definition stub_table :: "(c_int \<times> c_int) list" where
  "stub_table =
     [(0, 0), (EAI_NONAME, UV_EAI_NONAME), (EAI_AGAIN, UV_EAI_AGAIN),
      (EAI_MEMORY, UV_EAI_MEMORY), (EAI_OVERFLOW, UV_EAI_OVERFLOW)]"

text \<open>A world with nothing allocated, no call made, and memory not yet written.\<close>

definition w0 :: world where
  "w0 = \<lparr>bytes = (\<lambda>_. 255), slots = (\<lambda>_. NULL), chains = Map.empty, calls = []\<rparr>"

definition loopback :: addrinfo where
  "loopback = \<lparr>ai_flags = 0, ai_family = 2, ai_socktype = 1, ai_protocol = 6,
                ai_addr = [127, 0, 0, 1]\<rparr>"

text \<open>A forward resolver that reports code \<open>e\<close> and writes nothing.\<close>

definition forward_reports :: "c_int \<Rightarrow> ptr \<Rightarrow> ptr \<Rightarrow> ptr \<Rightarrow> ptr \<Rightarrow> world \<Rightarrow> c_int \<times> world" where
  "forward_reports e node service hints res w = (e, w)"

text \<open>
  A forward resolver that fails with a temporary failure when it is called for the first
  time, and from then on succeeds: it allocates a one-node chain at address 4096 and
  stores that address in \<open>*res\<close>.
\<close>

definition forward_flaky :: "ptr \<Rightarrow> ptr \<Rightarrow> ptr \<Rightarrow> ptr \<Rightarrow> world \<Rightarrow> c_int \<times> world" where
  "forward_flaky node service hints res w =
     (if calls w = [] then (EAI_AGAIN, w)
      else (0, w\<lparr>slots := (slots w)(res := 4096),
                 chains := (chains w)(4096 \<mapsto> [loopback])\<rparr>))"

text \<open>
  A forward resolver that rejects a call with neither node nor service, and succeeds
  otherwise, like \<open>forward_flaky\<close> on its later calls.
\<close>

definition forward_strict :: "ptr \<Rightarrow> ptr \<Rightarrow> ptr \<Rightarrow> ptr \<Rightarrow> world \<Rightarrow> c_int \<times> world" where
  "forward_strict node service hints res w =
     (if node = NULL \<and> service = NULL then (EAI_NONAME, w)
      else (0, w\<lparr>slots := (slots w)(res := 4096),
                 chains := (chains w)(4096 \<mapsto> [loopback])\<rparr>))"

text \<open>A reverse resolver that reports code \<open>e\<close> and writes nothing.\<close>

definition reverse_reports ::
  "c_int \<Rightarrow> ptr \<Rightarrow> socklen_t \<Rightarrow> ptr \<Rightarrow> socklen_t \<Rightarrow> ptr \<Rightarrow> socklen_t \<Rightarrow> c_int \<Rightarrow> world
     \<Rightarrow> c_int \<times> world" where
  "reverse_reports e addr addrlen host hostlen serv servlen flags w = (e, w)"

text \<open>Storing a byte string at an address, lowest address first.\<close>

fun store :: "ptr \<Rightarrow> byte list \<Rightarrow> (ptr \<Rightarrow> byte) \<Rightarrow> (ptr \<Rightarrow> byte)" where
  "store p [] m = m"
| "store p (b # bs) m = store (Suc p) bs (m(p := b))"

text \<open>
  A reverse resolver that knows one host name and one service name for every address. A
  buffer too small for its text and the terminator makes it report \<open>EAI_OVERFLOW\<close> and
  write nothing; otherwise it stores both texts, each followed by the terminator.
\<close>

definition stub_names :: "string \<times> string" where
  "stub_names = (''localhost'', ''http'')"

definition reverse_stub ::
  "ptr \<Rightarrow> socklen_t \<Rightarrow> ptr \<Rightarrow> socklen_t \<Rightarrow> ptr \<Rightarrow> socklen_t \<Rightarrow> c_int \<Rightarrow> world \<Rightarrow> c_int \<times> world" where
  "reverse_stub addr addrlen host hostlen serv servlen flags w =
     (if unat hostlen \<le> length (fst stub_names) \<or> unat servlen \<le> length (snd stub_names)
      then (EAI_OVERFLOW, w)
      else (0, w\<lparr>bytes :=
                   store serv (map of_char (snd stub_names) @ [0])
                     (store host (map of_char (fst stub_names) @ [0]) (bytes w))\<rparr>))"

text \<open>The platform: a forward resolver, a reverse resolver, and the table above.\<close>

definition platform ::
  "(ptr \<Rightarrow> ptr \<Rightarrow> ptr \<Rightarrow> ptr \<Rightarrow> world \<Rightarrow> c_int \<times> world) \<Rightarrow>
   (ptr \<Rightarrow> socklen_t \<Rightarrow> ptr \<Rightarrow> socklen_t \<Rightarrow> ptr \<Rightarrow> socklen_t \<Rightarrow> c_int \<Rightarrow> world \<Rightarrow> c_int \<times> world) \<Rightarrow>
   externals" where
  "platform gai gni =
     \<lparr>getaddrinfo = gai, getnameinfo = gni,
      uv__getaddrinfo_translate_error = translate_error stub_table UV_EAI_FAIL\<rparr>"

section \<open>What a call returns and leaves behind\<close>

lemma hs_getaddrinfo_status:
  "fst (hs_getaddrinfo ext node service hints res w) =
     scast (uv__getaddrinfo_translate_error ext (fst (getaddrinfo ext node service hints res w)))"
  by (simp add: hs_getaddrinfo_def call_getaddrinfo_def split: prod.split)

lemma hs_getaddrinfo_world:
  "snd (hs_getaddrinfo ext node service hints res w) =
     (snd (getaddrinfo ext node service hints res w))
       \<lparr>calls := calls w @ [Getaddrinfo node service hints res]\<rparr>"
  by (simp add: hs_getaddrinfo_def call_getaddrinfo_def split: prod.split)

lemma hs_getnameinfo_status:
  "fst (hs_getnameinfo ext addr addrlen host hostlen serv servlen flags w) =
     scast (uv__getaddrinfo_translate_error ext
       (fst (getnameinfo ext addr addrlen host hostlen serv servlen flags w)))"
  by (simp add: hs_getnameinfo_def call_getnameinfo_def split: prod.split)

lemma hs_getnameinfo_world:
  "snd (hs_getnameinfo ext addr addrlen host hostlen serv servlen flags w) =
     (snd (getnameinfo ext addr addrlen host hostlen serv servlen flags w))
       \<lparr>calls := calls w @ [Getnameinfo addr addrlen host hostlen serv servlen flags]\<rparr>"
  by (simp add: hs_getnameinfo_def call_getnameinfo_def split: prod.split)

text \<open>The conversion to \<open>HsInt\<close> keeps distinct codes distinct, and zero is the only zero.\<close>

lemma HsInt_cast_inj: "(scast (a :: c_int) :: HsInt) = scast b \<longleftrightarrow> a = b"
proof
  assume "(scast a :: HsInt) = scast b"
  then have "sint (scast a :: HsInt) = sint (scast b :: HsInt)"
    by simp
  then have "sint a = sint b"
    by (simp add: sint_up_scast is_up)
  then show "a = b"
    by (rule signed_word_eqI)
qed simp

lemma HsInt_cast_zero: "(scast (a :: c_int) :: HsInt) = 0 \<longleftrightarrow> a = 0"
  using HsInt_cast_inj [of a 0] by simp

text \<open>The codes of the platform, for evaluation.\<close>

lemmas stub_codes = EAI_NONAME_def EAI_AGAIN_def EAI_MEMORY_def EAI_OVERFLOW_def
  UV_EAI_NONAME_def UV_EAI_AGAIN_def UV_EAI_MEMORY_def UV_EAI_OVERFLOW_def UV_EAI_FAIL_def

subsection \<open>Forward resolution: one resolver call, no retry\<close>

text \<open>
  Claim C2. For every input, \<open>hs_getaddrinfo\<close> invokes the OS resolver exactly once: the
  world it returns has one invocation more than the world it started from, the
  \<open>getaddrinfo\<close> call with the arguments given. Its status is the translation of the
  code that this one call reported. The examples after the theorem run it on a resolver
  that fails the first time and would succeed the second time: the failure is returned.
\<close>

theorem forward_calls_resolver_once:
  "calls (snd (hs_getaddrinfo ext node service hints res w)) =
     calls w @ [Getaddrinfo node service hints res] \<and>
   fst (hs_getaddrinfo ext node service hints res w) =
     scast (uv__getaddrinfo_translate_error ext
       (fst (getaddrinfo ext node service hints res w)))"
  by (simp add: hs_getaddrinfo_status hs_getaddrinfo_world)

lemma forward_no_retry_example:
  "hs_getaddrinfo (platform forward_flaky reverse_stub) 100 NULL NULL 200 w0 =
     (scast UV_EAI_AGAIN, w0\<lparr>calls := [Getaddrinfo 100 NULL NULL 200]\<rparr>)"
  by (simp add: hs_getaddrinfo_def call_getaddrinfo_def platform_def forward_flaky_def
      translate_error_def stub_table_def w0_def stub_codes)

lemma forward_second_call_example:
  "fst (hs_getaddrinfo (platform forward_flaky reverse_stub) 100 NULL NULL 200
     (snd (hs_getaddrinfo (platform forward_flaky reverse_stub) 100 NULL NULL 200 w0))) = 0"
  by (simp add: hs_getaddrinfo_def call_getaddrinfo_def platform_def forward_flaky_def
      translate_error_def stub_table_def w0_def stub_codes)

subsection \<open>One normalization for both directions\<close>

text \<open>
  Claim C3. When the forward resolver and the reverse resolver report the same code
  \<open>e\<close>, \<open>hs_getaddrinfo\<close> and \<open>hs_getnameinfo\<close> return the same status, the
  translation of \<open>e\<close> by the one translation routine.
\<close>

theorem shared_normalization:
  assumes "fst (getaddrinfo ext node service hints res w1) = e"
    and "fst (getnameinfo ext addr addrlen host hostlen serv servlen flags w2) = e"
  shows "fst (hs_getaddrinfo ext node service hints res w1) =
           fst (hs_getnameinfo ext addr addrlen host hostlen serv servlen flags w2) \<and>
         fst (hs_getaddrinfo ext node service hints res w1) =
           scast (uv__getaddrinfo_translate_error ext e)"
  using assms by (simp add: hs_getaddrinfo_status hs_getnameinfo_status)

text \<open>Both resolvers report \<open>EAI_NONAME\<close>; both functions return \<open>UV_EAI_NONAME\<close>.\<close>

theorem shared_normalization_witness:
  "fst (getaddrinfo (platform (forward_reports EAI_NONAME) (reverse_reports EAI_NONAME))
          100 NULL NULL 200 w0) = EAI_NONAME \<and>
   fst (getnameinfo (platform (forward_reports EAI_NONAME) (reverse_reports EAI_NONAME))
          300 16 1000 64 2000 32 0 w0) = EAI_NONAME \<and>
   fst (hs_getaddrinfo (platform (forward_reports EAI_NONAME) (reverse_reports EAI_NONAME))
          100 NULL NULL 200 w0) =
   fst (hs_getnameinfo (platform (forward_reports EAI_NONAME) (reverse_reports EAI_NONAME))
          300 16 1000 64 2000 32 0 w0) \<and>
   fst (hs_getaddrinfo (platform (forward_reports EAI_NONAME) (reverse_reports EAI_NONAME))
          100 NULL NULL 200 w0) = scast UV_EAI_NONAME"
proof -
  let ?ext = "platform (forward_reports EAI_NONAME) (reverse_reports EAI_NONAME)"
  have f: "fst (getaddrinfo ?ext 100 NULL NULL 200 w0) = EAI_NONAME"
    by (simp add: platform_def forward_reports_def)
  have r: "fst (getnameinfo ?ext 300 16 1000 64 2000 32 0 w0) = EAI_NONAME"
    by (simp add: platform_def reverse_reports_def)
  have t: "uv__getaddrinfo_translate_error ?ext EAI_NONAME = UV_EAI_NONAME"
    by (simp add: platform_def translate_error_def stub_table_def stub_codes)
  have same: "fst (hs_getaddrinfo ?ext 100 NULL NULL 200 w0) =
      fst (hs_getnameinfo ?ext 300 16 1000 64 2000 32 0 w0)"
    using shared_normalization [OF f r] by (rule conjunct1)
  have "fst (hs_getaddrinfo ?ext 100 NULL NULL 200 w0) =
      scast (uv__getaddrinfo_translate_error ?ext EAI_NONAME)"
    using shared_normalization [OF f r] by (rule conjunct2)
  then have "fst (hs_getaddrinfo ?ext 100 NULL NULL 200 w0) = scast UV_EAI_NONAME"
    by (simp only: t)
  with f r same show ?thesis
    by (intro conjI)
qed


subsection \<open>Repeated calls\<close>

text \<open>
  Claim C7. Two calls of \<open>hs_getaddrinfo\<close> whose resolver calls report the same code
  return the same status, whatever their arguments and worlds; likewise two calls of
  \<open>hs_getnameinfo\<close>.
\<close>

theorem status_deterministic:
  "(fst (getaddrinfo ext n1 s1 h1 r1 w1) = fst (getaddrinfo ext n2 s2 h2 r2 w2) \<longrightarrow>
      fst (hs_getaddrinfo ext n1 s1 h1 r1 w1) = fst (hs_getaddrinfo ext n2 s2 h2 r2 w2)) \<and>
   (fst (getnameinfo ext a1 al1 ho1 hl1 se1 sl1 f1 w1) =
      fst (getnameinfo ext a2 al2 ho2 hl2 se2 sl2 f2 w2) \<longrightarrow>
      fst (hs_getnameinfo ext a1 al1 ho1 hl1 se1 sl1 f1 w1) =
        fst (hs_getnameinfo ext a2 al2 ho2 hl2 se2 sl2 f2 w2))"
  by (simp add: hs_getaddrinfo_status hs_getnameinfo_status)

text \<open>
  Each function called twice in a row, the second time in the world the first call left,
  on a resolver that reports \<open>EAI_AGAIN\<close> both times.
\<close>

theorem status_deterministic_witness:
  "fst (getaddrinfo (platform (forward_reports EAI_AGAIN) (reverse_reports EAI_AGAIN))
          100 NULL NULL 200 w0) =
   fst (getaddrinfo (platform (forward_reports EAI_AGAIN) (reverse_reports EAI_AGAIN))
          100 NULL NULL 200
          (snd (hs_getaddrinfo (platform (forward_reports EAI_AGAIN) (reverse_reports EAI_AGAIN))
                  100 NULL NULL 200 w0))) \<and>
   fst (hs_getaddrinfo (platform (forward_reports EAI_AGAIN) (reverse_reports EAI_AGAIN))
          100 NULL NULL 200 w0) =
   fst (hs_getaddrinfo (platform (forward_reports EAI_AGAIN) (reverse_reports EAI_AGAIN))
          100 NULL NULL 200
          (snd (hs_getaddrinfo (platform (forward_reports EAI_AGAIN) (reverse_reports EAI_AGAIN))
                  100 NULL NULL 200 w0))) \<and>
   fst (getnameinfo (platform (forward_reports EAI_AGAIN) (reverse_reports EAI_AGAIN))
          300 16 1000 64 2000 32 0 w0) =
   fst (getnameinfo (platform (forward_reports EAI_AGAIN) (reverse_reports EAI_AGAIN))
          300 16 1000 64 2000 32 0
          (snd (hs_getnameinfo (platform (forward_reports EAI_AGAIN) (reverse_reports EAI_AGAIN))
                  300 16 1000 64 2000 32 0 w0))) \<and>
   fst (hs_getnameinfo (platform (forward_reports EAI_AGAIN) (reverse_reports EAI_AGAIN))
          300 16 1000 64 2000 32 0 w0) =
   fst (hs_getnameinfo (platform (forward_reports EAI_AGAIN) (reverse_reports EAI_AGAIN))
          300 16 1000 64 2000 32 0
          (snd (hs_getnameinfo (platform (forward_reports EAI_AGAIN) (reverse_reports EAI_AGAIN))
                  300 16 1000 64 2000 32 0 w0)))"
proof -
  let ?ext = "platform (forward_reports EAI_AGAIN) (reverse_reports EAI_AGAIN)"
  let ?w1 = "snd (hs_getaddrinfo ?ext 100 NULL NULL 200 w0)"
  let ?w2 = "snd (hs_getnameinfo ?ext 300 16 1000 64 2000 32 0 w0)"
  have f: "fst (getaddrinfo ?ext 100 NULL NULL 200 w0) =
      fst (getaddrinfo ?ext 100 NULL NULL 200 ?w1)"
    by (simp add: platform_def forward_reports_def)
  have r: "fst (getnameinfo ?ext 300 16 1000 64 2000 32 0 w0) =
      fst (getnameinfo ?ext 300 16 1000 64 2000 32 0 ?w2)"
    by (simp add: platform_def reverse_reports_def)
  have "fst (hs_getaddrinfo ?ext 100 NULL NULL 200 w0) =
      fst (hs_getaddrinfo ?ext 100 NULL NULL 200 ?w1)"
    using status_deterministic [where ext = ?ext and ?n1.0 = 100 and ?s1.0 = NULL
        and ?h1.0 = NULL and ?r1.0 = 200 and ?w1.0 = w0 and ?n2.0 = 100 and ?s2.0 = NULL
        and ?h2.0 = NULL and ?r2.0 = 200 and ?w2.0 = ?w1] f
    by blast
  moreover have "fst (hs_getnameinfo ?ext 300 16 1000 64 2000 32 0 w0) =
      fst (hs_getnameinfo ?ext 300 16 1000 64 2000 32 0 ?w2)"
    using status_deterministic [where ext = ?ext and ?a1.0 = 300 and ?al1.0 = 16
        and ?ho1.0 = 1000 and ?hl1.0 = 64 and ?se1.0 = 2000 and ?sl1.0 = 32 and ?f1.0 = 0
        and ?w1.0 = w0 and ?a2.0 = 300 and ?al2.0 = 16 and ?ho2.0 = 1000 and ?hl2.0 = 64
        and ?se2.0 = 2000 and ?sl2.0 = 32 and ?f2.0 = 0 and ?w2.0 = ?w2] r
    by blast
  ultimately show ?thesis
    using f r by (intro conjI)
qed

subsection \<open>No check of node and service\<close>

text \<open>
  Claim C8. \<open>hs_getaddrinfo\<close> has no check of its own. For every input, whether node and
  service are \<open>NULL\<close>, point at empty strings or at anything else, what it returns is
  fixed by the \<open>getaddrinfo\<close> call on the same four arguments in the same world: the
  status is the translation of the code that call reported, and the world is the one that
  call left, with the invocation, carrying the four arguments unchanged, added to the
  trace. The second conjunct is the case of node and service both \<open>NULL\<close>. The examples
  after the theorem show that call rejected on a resolver that rejects it and accepted on
  a resolver that does not.
\<close>

theorem forward_passes_arguments_unchecked:
  "hs_getaddrinfo ext node service hints res w =
     (scast (uv__getaddrinfo_translate_error ext
        (fst (getaddrinfo ext node service hints res w))),
      (snd (getaddrinfo ext node service hints res w))
        \<lparr>calls := calls w @ [Getaddrinfo node service hints res]\<rparr>) \<and>
   hs_getaddrinfo ext NULL NULL hints res w =
     (scast (uv__getaddrinfo_translate_error ext
        (fst (getaddrinfo ext NULL NULL hints res w))),
      (snd (getaddrinfo ext NULL NULL hints res w))
        \<lparr>calls := calls w @ [Getaddrinfo NULL NULL hints res]\<rparr>)"
  by (simp add: prod_eq_iff hs_getaddrinfo_status hs_getaddrinfo_world)

lemma forward_null_rejected_by_resolver_example:
  "hs_getaddrinfo (platform forward_strict reverse_stub) NULL NULL NULL 200 w0 =
     (scast UV_EAI_NONAME, w0\<lparr>calls := [Getaddrinfo NULL NULL NULL 200]\<rparr>)"
  by (simp add: hs_getaddrinfo_def call_getaddrinfo_def platform_def forward_strict_def
      translate_error_def stub_table_def w0_def stub_codes)

lemma forward_null_accepted_by_resolver_example:
  "fst (hs_getaddrinfo (platform (forward_reports 0) reverse_stub) NULL NULL NULL 200 w0) = 0"
  by (simp add: hs_getaddrinfo_def call_getaddrinfo_def platform_def forward_reports_def
      translate_error_def stub_table_def)

subsection \<open>The result slot\<close>

text \<open>
  Claim C10. On every path of \<open>hs_getaddrinfo\<close>, the function neither reads nor changes
  \<open>*res\<close>. The status it returns is the translation of the code the \<open>getaddrinfo\<close> call
  reported, so nothing it returns depends on what \<open>*res\<close> holds. After the call the cell
  \<open>*res\<close> holds what the \<open>getaddrinfo\<close> call left in it, and so does every other
  pointer cell; the chains that are allocated, among them the one \<open>*res\<close> points at, and
  character memory are as the resolver left them.
\<close>

theorem forward_leaves_result_slot_to_resolver:
  "fst (hs_getaddrinfo ext node service hints res w) =
     scast (uv__getaddrinfo_translate_error ext
       (fst (getaddrinfo ext node service hints res w))) \<and>
   slots (snd (hs_getaddrinfo ext node service hints res w)) res =
     slots (snd (getaddrinfo ext node service hints res w)) res \<and>
   slots (snd (hs_getaddrinfo ext node service hints res w)) =
     slots (snd (getaddrinfo ext node service hints res w)) \<and>
   chains (snd (hs_getaddrinfo ext node service hints res w)) =
     chains (snd (getaddrinfo ext node service hints res w)) \<and>
   chains (snd (hs_getaddrinfo ext node service hints res w))
       (slots (snd (hs_getaddrinfo ext node service hints res w)) res) =
     chains (snd (getaddrinfo ext node service hints res w))
       (slots (snd (getaddrinfo ext node service hints res w)) res) \<and>
   bytes (snd (hs_getaddrinfo ext node service hints res w)) =
     bytes (snd (getaddrinfo ext node service hints res w))"
  by (simp add: hs_getaddrinfo_status hs_getaddrinfo_world)

text \<open>
  Two calls that differ only in what \<open>*res\<close> holds beforehand, on a resolver that does
  not write it: the same status, and each cell keeps its content.
\<close>

lemma forward_result_slot_not_read_example:
  "fst (hs_getaddrinfo (platform (forward_reports EAI_NONAME) reverse_stub) 100 NULL NULL 200
          (w0\<lparr>slots := (slots w0)(200 := 4096)\<rparr>)) =
   fst (hs_getaddrinfo (platform (forward_reports EAI_NONAME) reverse_stub) 100 NULL NULL 200
          w0)"
  by (simp add: hs_getaddrinfo_status platform_def forward_reports_def)

subsection \<open>The result after a failure\<close>

text \<open>
  Claim C4, as stated: whenever \<open>hs_getaddrinfo\<close> fails, the result it hands back is
  empty. It does not hold: the caller's cell holds the address 4096 before the call, the
  resolver reports \<open>EAI_NONAME\<close> and writes nothing, and the cell still holds 4096 after
  the failed call.
\<close>

theorem forward_failure_keeps_stale_result:
  "fst (hs_getaddrinfo (platform (forward_reports EAI_NONAME) reverse_stub) 100 NULL NULL 200
          (w0\<lparr>slots := (slots w0)(200 := 4096)\<rparr>)) \<noteq> 0 \<and>
   slots (snd (hs_getaddrinfo (platform (forward_reports EAI_NONAME) reverse_stub)
          100 NULL NULL 200 (w0\<lparr>slots := (slots w0)(200 := 4096)\<rparr>))) 200 \<noteq> NULL"
  by (simp add: hs_getaddrinfo_def call_getaddrinfo_def platform_def forward_reports_def
      translate_error_def stub_table_def w0_def NULL_def stub_codes)

text \<open>
  Claim C4, amended. Whenever \<open>hs_getaddrinfo\<close> fails, \<open>*res\<close> holds what the
  \<open>getaddrinfo\<close> call left in it; the result is empty exactly when the resolver left
  the cell empty.
\<close>

theorem forward_failure_result:
  assumes "fst (hs_getaddrinfo ext node service hints res w) \<noteq> 0"
  shows "slots (snd (hs_getaddrinfo ext node service hints res w)) res =
           slots (snd (getaddrinfo ext node service hints res w)) res \<and>
         (slots (snd (hs_getaddrinfo ext node service hints res w)) res = NULL \<longleftrightarrow>
            slots (snd (getaddrinfo ext node service hints res w)) res = NULL)"
  by (simp add: hs_getaddrinfo_world)

text \<open>A failed call on a cell that was empty before and that the resolver did not write.\<close>

theorem forward_failure_result_witness:
  "fst (hs_getaddrinfo (platform (forward_reports EAI_NONAME) reverse_stub)
          100 NULL NULL 200 w0) \<noteq> 0 \<and>
   slots (snd (getaddrinfo (platform (forward_reports EAI_NONAME) reverse_stub)
          100 NULL NULL 200 w0)) 200 = NULL \<and>
   slots (snd (hs_getaddrinfo (platform (forward_reports EAI_NONAME) reverse_stub)
          100 NULL NULL 200 w0)) 200 = NULL"
proof -
  let ?ext = "platform (forward_reports EAI_NONAME) reverse_stub"
  have failed: "fst (hs_getaddrinfo ?ext 100 NULL NULL 200 w0) \<noteq> 0"
    by (simp add: hs_getaddrinfo_status platform_def forward_reports_def translate_error_def
        stub_table_def stub_codes)
  have left: "slots (snd (getaddrinfo ?ext 100 NULL NULL 200 w0)) 200 = NULL"
    by (simp add: platform_def forward_reports_def w0_def)
  from forward_failure_result [OF failed] left
  have "slots (snd (hs_getaddrinfo ?ext 100 NULL NULL 200 w0)) 200 = NULL"
    by blast
  with failed left show ?thesis
    by (intro conjI)
qed

subsection \<open>Release of the result chain\<close>

text \<open>
  Claim C9, as stated: the chain is wrapped in an owning handle and released on every
  exit path. It does not hold. On a resolver that succeeds, allocating a chain at address
  4096 and storing that address in \<open>*res\<close>, \<open>hs_getaddrinfo\<close> returns success, \<open>*res\<close>
  holds the address of the chain itself, and the chain is still allocated.
\<close>

theorem forward_chain_not_released:
  "fst (hs_getaddrinfo (platform forward_strict reverse_stub) 100 NULL NULL 200 w0) = 0 \<and>
   slots (snd (hs_getaddrinfo (platform forward_strict reverse_stub) 100 NULL NULL 200 w0))
     200 = 4096 \<and>
   chains (snd (hs_getaddrinfo (platform forward_strict reverse_stub) 100 NULL NULL 200 w0))
     4096 = Some [loopback]"
  by (simp add: hs_getaddrinfo_def call_getaddrinfo_def platform_def
      forward_strict_def translate_error_def stub_table_def w0_def NULL_def stub_codes)

text \<open>
  Claim C9, amended. \<open>hs_getaddrinfo\<close> neither wraps nor releases the chain. On every
  path, \<open>*res\<close> holds when it returns the address the \<open>getaddrinfo\<close> call stored there,
  the chains allocated are those that call left allocated, each with the nodes it had,
  and that call is the only resolver routine the function invokes.
\<close>

theorem forward_releases_nothing:
  "slots (snd (hs_getaddrinfo ext node service hints res w)) res =
     slots (snd (getaddrinfo ext node service hints res w)) res \<and>
   chains (snd (hs_getaddrinfo ext node service hints res w)) =
     chains (snd (getaddrinfo ext node service hints res w)) \<and>
   calls (snd (hs_getaddrinfo ext node service hints res w)) =
     calls w @ [Getaddrinfo node service hints res]"
  by (simp add: hs_getaddrinfo_world)

lemma translate_error_unmapped:
  "e \<notin> fst ` set table \<Longrightarrow> translate_error table fallback e = fallback"
  by (simp add: translate_error_def map_of_eq_None_iff [THEN iffD2])

subsection \<open>The translation table\<close>

text \<open>
  Claim C1. With the translation routine as the spec describes it, every OS-native code
  has exactly one normalized counterpart: the table's entry when the code is mapped, the
  fallback code when it is not. Both functions then return the fallback code for an
  unmapped code.
\<close>

theorem translation_total_with_fallback:
  assumes "uv__getaddrinfo_translate_error ext = translate_error table fallback"
  shows "(\<exists>!s. uv__getaddrinfo_translate_error ext e = s) \<and>
         (\<forall>s. map_of table e = Some s \<longrightarrow> uv__getaddrinfo_translate_error ext e = s) \<and>
         (e \<notin> fst ` set table \<longrightarrow>
            uv__getaddrinfo_translate_error ext e = fallback \<and>
            (fst (getaddrinfo ext node service hints res w) = e \<longrightarrow>
               fst (hs_getaddrinfo ext node service hints res w) = scast fallback) \<and>
            (fst (getnameinfo ext addr addrlen host hostlen serv servlen flags w) = e \<longrightarrow>
               fst (hs_getnameinfo ext addr addrlen host hostlen serv servlen flags w) =
                 scast fallback))"
proof (intro conjI allI impI)
  show "\<exists>!s. uv__getaddrinfo_translate_error ext e = s"
    by simp
next
  fix s
  assume "map_of table e = Some s"
  then show "uv__getaddrinfo_translate_error ext e = s"
    by (simp add: assms translate_error_def)
next
  assume unmapped: "e \<notin> fst ` set table"
  then show fb: "uv__getaddrinfo_translate_error ext e = fallback"
    by (simp add: assms translate_error_unmapped)
  {
    assume "fst (getaddrinfo ext node service hints res w) = e"
    then show "fst (hs_getaddrinfo ext node service hints res w) = scast fallback"
      by (simp add: hs_getaddrinfo_status fb)
  }
  {
    assume "fst (getnameinfo ext addr addrlen host hostlen serv servlen flags w) = e"
    then show "fst (hs_getnameinfo ext addr addrlen host hostlen serv servlen flags w) =
        scast fallback"
      by (simp add: hs_getnameinfo_status fb)
  }
qed

text \<open>Code 77 is not in the table of the platform; \<open>EAI_NONAME\<close> is.\<close>

theorem translation_total_with_fallback_witness:
  "uv__getaddrinfo_translate_error (platform (forward_reports 77) (reverse_reports 77)) =
     translate_error stub_table UV_EAI_FAIL \<and>
   77 \<notin> fst ` set stub_table \<and>
   uv__getaddrinfo_translate_error (platform (forward_reports 77) (reverse_reports 77)) 77 =
     UV_EAI_FAIL \<and>
   fst (hs_getaddrinfo (platform (forward_reports 77) (reverse_reports 77))
          100 NULL NULL 200 w0) = scast UV_EAI_FAIL \<and>
   fst (hs_getnameinfo (platform (forward_reports 77) (reverse_reports 77))
          300 16 1000 64 2000 32 0 w0) = scast UV_EAI_FAIL \<and>
   map_of stub_table EAI_NONAME = Some UV_EAI_NONAME \<and>
   uv__getaddrinfo_translate_error (platform (forward_reports 77) (reverse_reports 77))
     EAI_NONAME = UV_EAI_NONAME"
proof -
  let ?ext = "platform (forward_reports 77) (reverse_reports 77)"
  have tr: "uv__getaddrinfo_translate_error ?ext = translate_error stub_table UV_EAI_FAIL"
    by (simp add: platform_def)
  have unmapped: "77 \<notin> fst ` set stub_table"
    by (simp add: stub_table_def stub_codes)
  have mapped: "map_of stub_table EAI_NONAME = Some UV_EAI_NONAME"
    by (simp add: stub_table_def stub_codes)
  have f: "fst (getaddrinfo ?ext 100 NULL NULL 200 w0) = 77"
    by (simp add: platform_def forward_reports_def)
  have r: "fst (getnameinfo ?ext 300 16 1000 64 2000 32 0 w0) = 77"
    by (simp add: platform_def reverse_reports_def)
  note at_77 = translation_total_with_fallback [OF tr, where e = 77 and node = 100
      and service = NULL and hints = NULL and res = 200 and w = w0 and addr = 300
      and addrlen = 16 and host = 1000 and hostlen = 64 and serv = 2000 and servlen = 32
      and flags = 0]
  note at_noname = translation_total_with_fallback [OF tr, where e = EAI_NONAME]
  have "uv__getaddrinfo_translate_error ?ext 77 = UV_EAI_FAIL"
    using at_77 unmapped by blast
  moreover have "fst (hs_getaddrinfo ?ext 100 NULL NULL 200 w0) = scast UV_EAI_FAIL"
    using at_77 unmapped f by blast
  moreover have "fst (hs_getnameinfo ?ext 300 16 1000 64 2000 32 0 w0) = scast UV_EAI_FAIL"
    using at_77 unmapped r by blast
  moreover have "uv__getaddrinfo_translate_error ?ext EAI_NONAME = UV_EAI_NONAME"
    using at_noname mapped by blast
  ultimately show ?thesis
    using tr unmapped mapped by (intro conjI)
qed

subsection \<open>Reverse resolution: the output buffers\<close>

text \<open>What \<open>store\<close> writes, and where.\<close>

lemma store_outside: "a < p \<or> p + length bs \<le> a \<Longrightarrow> store p bs m a = m a"
  by (induction bs arbitrary: p m) auto

lemma store_inside: "i < length bs \<Longrightarrow> store p bs m (p + i) = bs ! i"
proof (induction bs arbitrary: p m i)
  case Nil
  then show ?case by simp
next
  case (Cons b bs)
  show ?case
  proof (cases i)
    case 0
    then show ?thesis by (simp add: store_outside)
  next
    case (Suc j)
    with Cons.prems have "j < length bs" by simp
    then have "store (Suc p) bs (m(p := b)) (Suc p + j) = bs ! j"
      by (rule Cons.IH)
    with Suc show ?thesis by simp
  qed
qed

lemma confined_calls: "confined host hostlen serv servlen w (w'\<lparr>calls := cs\<rparr>) \<longleftrightarrow>
    confined host hostlen serv servlen w w'"
  by (simp add: confined_def)

text \<open>
  Claim C5. Let the reverse resolver report the overflow code, and write only within the
  two buffers, whenever a buffer's capacity is smaller than the length of the resolved
  name, and let the translation map that code to the buffer-too-small status. Then
  \<open>hs_getnameinfo\<close>, given such a buffer, returns the buffer-too-small status, and
  character memory outside the first \<open>hostlen\<close> bytes of \<open>host\<close> and the first
  \<open>servlen\<close> bytes of \<open>serv\<close> is as it was before the call.
\<close>

theorem reverse_buffer_too_small:
  assumes "overflow_contract ext resolved ovf"
    and "uv__getaddrinfo_translate_error ext ovf = too_small"
    and "unat hostlen < length (fst (resolved addr addrlen flags w)) \<or>
         unat servlen < length (snd (resolved addr addrlen flags w))"
  shows "fst (hs_getnameinfo ext addr addrlen host hostlen serv servlen flags w) =
           scast too_small \<and>
         confined host hostlen serv servlen w
           (snd (hs_getnameinfo ext addr addrlen host hostlen serv servlen flags w))"
proof -
  from assms(1,3)
  have "fst (getnameinfo ext addr addrlen host hostlen serv servlen flags w) = ovf"
    and "confined host hostlen serv servlen w
           (snd (getnameinfo ext addr addrlen host hostlen serv servlen flags w))"
    unfolding overflow_contract_def by blast+
  with assms(2) show ?thesis
    by (simp add: hs_getnameinfo_status hs_getnameinfo_world confined_calls)
qed

text \<open>The reverse resolver of the platform behaves so.\<close>

lemma reverse_stub_overflow_contract:
  "overflow_contract (platform gai reverse_stub) (\<lambda>addr addrlen flags w. stub_names)
     EAI_OVERFLOW"
  by (auto simp add: overflow_contract_def platform_def reverse_stub_def confined_def)

text \<open>
  A host buffer of 4 bytes for the 9 characters of the resolved host name, on the
  platform.
\<close>

theorem reverse_buffer_too_small_witness:
  "overflow_contract (platform (forward_reports 0) reverse_stub)
     (\<lambda>addr addrlen flags w. stub_names) EAI_OVERFLOW \<and>
   uv__getaddrinfo_translate_error (platform (forward_reports 0) reverse_stub) EAI_OVERFLOW =
     UV_EAI_OVERFLOW \<and>
   unat (4 :: socklen_t) < length (fst stub_names) \<and>
   fst (hs_getnameinfo (platform (forward_reports 0) reverse_stub) 300 16 1000 4 2000 32 0 w0) =
     scast UV_EAI_OVERFLOW \<and>
   confined 1000 4 2000 32 w0
     (snd (hs_getnameinfo (platform (forward_reports 0) reverse_stub) 300 16 1000 4 2000 32 0 w0))"
proof -
  let ?ext = "platform (forward_reports 0) reverse_stub"
  have c: "overflow_contract ?ext (\<lambda>addr addrlen flags w. stub_names) EAI_OVERFLOW"
    by (rule reverse_stub_overflow_contract)
  have t: "uv__getaddrinfo_translate_error ?ext EAI_OVERFLOW = UV_EAI_OVERFLOW"
    by (simp add: platform_def translate_error_def stub_table_def stub_codes)
  have small: "unat (4 :: socklen_t) < length (fst stub_names)"
    by (simp add: stub_names_def)
  then have s: "unat (4 :: socklen_t) < length (fst ((\<lambda>addr addrlen flags w. stub_names)
        (300 :: ptr) (16 :: socklen_t) (0 :: c_int) w0)) \<or>
      unat (32 :: socklen_t) < length (snd ((\<lambda>addr addrlen flags w. stub_names)
        (300 :: ptr) (16 :: socklen_t) (0 :: c_int) w0))"
    by simp
  from reverse_buffer_too_small [OF c t s, where host = 1000 and serv = 2000] c t small show ?thesis
    by (intro conjI) blast+
qed

text \<open>
  Claim C6. \<open>hs_getnameinfo\<close> invokes \<open>getnameinfo\<close> once, on the caller's two buffers
  with their capacities, and does nothing else to memory. When that call allocates
  nothing, writes only within the two buffers and on success leaves terminated text in
  each, within its capacity, then so does \<open>hs_getnameinfo\<close>: no chain is allocated, no
  pointer cell changes, character memory changes only within the two buffers, and a
  status of 0 comes with terminated text in both. The second hypothesis says that the
  translation returns the success status 0 for the success code 0 only.
\<close>

theorem reverse_fills_buffers_in_place:
  assumes "fills_in_place host hostlen serv servlen w
             (getnameinfo ext addr addrlen host hostlen serv servlen flags w)"
    and "\<forall>e. uv__getaddrinfo_translate_error ext e = 0 \<longrightarrow> e = 0"
  shows "confined host hostlen serv servlen w
           (snd (hs_getnameinfo ext addr addrlen host hostlen serv servlen flags w)) \<and>
         slots (snd (hs_getnameinfo ext addr addrlen host hostlen serv servlen flags w)) =
           slots w \<and>
         chains (snd (hs_getnameinfo ext addr addrlen host hostlen serv servlen flags w)) =
           chains w \<and>
         calls (snd (hs_getnameinfo ext addr addrlen host hostlen serv servlen flags w)) =
           calls w @ [Getnameinfo addr addrlen host hostlen serv servlen flags] \<and>
         (fst (hs_getnameinfo ext addr addrlen host hostlen serv servlen flags w) = 0 \<longrightarrow>
            terminated
              (bytes (snd (hs_getnameinfo ext addr addrlen host hostlen serv servlen flags w)))
              host hostlen \<and>
            terminated
              (bytes (snd (hs_getnameinfo ext addr addrlen host hostlen serv servlen flags w)))
              serv servlen)"
proof -
  let ?r = "getnameinfo ext addr addrlen host hostlen serv servlen flags w"
  from assms(1) have frame: "confined host hostlen serv servlen w (snd ?r)"
    and sl: "slots (snd ?r) = slots w" and ch: "chains (snd ?r) = chains w"
    and ok: "fst ?r = 0 \<Longrightarrow>
      terminated (bytes (snd ?r)) host hostlen \<and> terminated (bytes (snd ?r)) serv servlen"
    by (simp_all add: fills_in_place_def)
  have "fst (hs_getnameinfo ext addr addrlen host hostlen serv servlen flags w) = 0 \<Longrightarrow>
      fst ?r = 0"
    using assms(2) by (simp add: hs_getnameinfo_status HsInt_cast_zero)
  with frame sl ch ok show ?thesis
    by (simp add: hs_getnameinfo_world confined_calls)
qed

text \<open>The reverse resolver of the platform behaves so on two buffers that do not overlap.\<close>

lemma reverse_stub_fills_in_place:
  assumes "host + unat hostlen \<le> serv \<or> serv + unat servlen \<le> host"
  shows "fills_in_place host hostlen serv servlen w
           (reverse_stub addr addrlen host hostlen serv servlen flags w)"
proof (cases "unat hostlen \<le> length (fst stub_names) \<or> unat servlen \<le> length (snd stub_names)")
  case True
  then show ?thesis
    by (simp add: fills_in_place_def reverse_stub_def confined_def stub_codes)
next
  case False
  let ?h = "map of_char (fst stub_names) @ [0 :: byte]"
  let ?s = "map of_char (snd stub_names) @ [0 :: byte]"
  let ?m = "store serv ?s (store host ?h (bytes w))"
  from False have hl: "length ?h \<le> unat hostlen" and sl: "length ?s \<le> unat servlen"
    by simp_all
  have out: "?m a = bytes w a" if "\<not> within host hostlen a" "\<not> within serv servlen a" for a
    using that hl sl by (auto simp add: within_def store_outside)
  have "?m (host + length (fst stub_names)) = store host ?h (bytes w) (host + length (fst stub_names))"
    using assms hl sl by (intro store_outside) auto
  also have "\<dots> = ?h ! length (fst stub_names)"
    by (intro store_inside) simp
  also have "\<dots> = 0"
    by (simp add: nth_append)
  finally have th: "terminated ?m host hostlen"
    using hl unfolding terminated_def by (intro exI [of _ "length (fst stub_names)"]) simp
  have "?m (serv + length (snd stub_names)) = ?s ! length (snd stub_names)"
    by (intro store_inside) simp
  also have "\<dots> = 0"
    by (simp add: nth_append)
  finally have ts: "terminated ?m serv servlen"
    using sl unfolding terminated_def by (intro exI [of _ "length (snd stub_names)"]) simp
  from False out th ts show ?thesis
    by (simp add: fills_in_place_def reverse_stub_def confined_def)
qed

lemma stub_translation_success: "translate_error stub_table UV_EAI_FAIL e = 0 \<longrightarrow> e = 0"
  by (simp add: translate_error_def stub_table_def stub_codes)

text \<open>Buffers of 64 and 32 bytes for the names of the platform: the call succeeds.\<close>

theorem reverse_fills_buffers_in_place_witness:
  "fills_in_place 1000 64 2000 32 w0
     (getnameinfo (platform (forward_reports 0) reverse_stub) 300 16 1000 64 2000 32 0 w0) \<and>
   fst (hs_getnameinfo (platform (forward_reports 0) reverse_stub) 300 16 1000 64 2000 32 0 w0) = 0 \<and>
   confined 1000 64 2000 32 w0
     (snd (hs_getnameinfo (platform (forward_reports 0) reverse_stub) 300 16 1000 64 2000 32 0 w0)) \<and>
   chains (snd (hs_getnameinfo (platform (forward_reports 0) reverse_stub)
     300 16 1000 64 2000 32 0 w0)) = chains w0 \<and>
   terminated (bytes (snd (hs_getnameinfo (platform (forward_reports 0) reverse_stub)
     300 16 1000 64 2000 32 0 w0))) 1000 64 \<and>
   terminated (bytes (snd (hs_getnameinfo (platform (forward_reports 0) reverse_stub)
     300 16 1000 64 2000 32 0 w0))) 2000 32"
proof -
  let ?ext = "platform (forward_reports 0) reverse_stub"
  have "fills_in_place 1000 64 2000 32 w0 (reverse_stub 300 16 1000 64 2000 32 0 w0)"
    by (rule reverse_stub_fills_in_place) simp
  then have f: "fills_in_place 1000 64 2000 32 w0
      (getnameinfo ?ext 300 16 1000 64 2000 32 0 w0)"
    by (simp add: platform_def)
  have t: "\<forall>e. uv__getaddrinfo_translate_error ?ext e = 0 \<longrightarrow> e = 0"
    by (simp add: platform_def stub_translation_success)
  have ok: "fst (hs_getnameinfo ?ext 300 16 1000 64 2000 32 0 w0) = 0"
    by (simp add: hs_getnameinfo_status platform_def reverse_stub_def stub_names_def
        translate_error_def stub_table_def)
  from reverse_fills_buffers_in_place [OF f t] ok f show ?thesis
    by (intro conjI) blast+
qed

text \<open>
  The first and last characters of both texts, their terminators, and the byte after
  each terminator, which is not written; then the same call with a host buffer of 4 bytes,
  which writes nothing.
\<close>

lemma reverse_stub_text_example:
  "map (bytes (snd (hs_getnameinfo (platform (forward_reports 0) reverse_stub)
      300 16 1000 64 2000 32 0 w0))) [1000, 1008, 1009, 1010, 2000, 2003, 2004, 2005] =
     [108, 116, 0, 255, 104, 112, 0, 255]"
  by (simp add: hs_getnameinfo_def call_getnameinfo_def platform_def reverse_stub_def
      stub_names_def w0_def)

lemma reverse_stub_small_example:
  "hs_getnameinfo (platform (forward_reports 0) reverse_stub) 300 16 1000 4 2000 32 0 w0 =
     (scast UV_EAI_OVERFLOW, w0\<lparr>calls := [Getnameinfo 300 16 1000 4 2000 32 0]\<rparr>)"
  by (simp add: hs_getnameinfo_def call_getnameinfo_def platform_def reverse_stub_def
      stub_names_def translate_error_def stub_table_def w0_def stub_codes)

end
